theory Spec2Isabelle
  imports Complex_Main "HOL-Library.Word" "HOL-Library.Sublist"
begin

section \<open>Values, errors and the schema model (internal/parser/types.go)\<close>

text \<open>
  A Go value of type \<open>any\<close>, as it reaches the validator and the statement compiler.
  \<open>VNil\<close> is the nil interface, \<open>VInt\<close> and \<open>VInt64\<close> are Go's \<open>int\<close> and \<open>int64\<close>,
  \<open>VFloat\<close> stands for \<open>float64\<close> (modelled by a real number: exact for the integers
  below \<open>2^53\<close> in magnitude, without NaN or infinities), \<open>VBytes\<close> is \<open>[]byte\<close>,
  \<open>VList\<close> is \<open>[]any\<close>, and \<open>VOther\<close> is a value of any other dynamic type
  (a map, a \<open>[]string\<close>, ...). Strings are byte strings, as Go's are.
\<close>

datatype val =
    VNil
  | VStr string
  | VBool bool
  | VInt int
  | VInt64 int
  | VFloat real
  | VBytes string
  | VList "val list"
  | VOther

text \<open>
  Errors as values: \<open>ValidationError field message\<close> is \<open>parser.ValidationError\<close>,
  \<open>Errorf msg\<close> an error made by \<open>fmt.Errorf\<close>, \<open>ErrNoRows\<close> is \<open>sql.ErrNoRows\<close>,
  \<open>DriverError\<close> is whatever the storage driver reports, \<open>Wrap prefix err\<close> is
  \<open>fmt.Errorf(prefix + "%w", err)\<close>, and \<open>TypeAssertionPanic\<close> is the
  run-time panic of an unchecked type assertion \<open>x.(T)\<close>.
\<close>

datatype error =
    ValidationError string string
  | Errorf string
  | ErrNoRows
  | DriverError string
  | Wrap string error
  | TypeAssertionPanic

text \<open>The field types: \<open>FieldType\<close> is a string type with these constants.\<close>

abbreviation FieldTypeText :: string where "FieldTypeText \<equiv> ''text''"
abbreviation FieldTypeNumber :: string where "FieldTypeNumber \<equiv> ''number''"
abbreviation FieldTypeBoolean :: string where "FieldTypeBoolean \<equiv> ''boolean''"
abbreviation FieldTypeDatetime :: string where "FieldTypeDatetime \<equiv> ''datetime''"
abbreviation FieldTypeDate :: string where "FieldTypeDate \<equiv> ''date''"
abbreviation FieldTypeTime :: string where "FieldTypeTime \<equiv> ''time''"
abbreviation FieldTypeID :: string where "FieldTypeID \<equiv> ''id''"
abbreviation FieldTypeEmail :: string where "FieldTypeEmail \<equiv> ''email''"
abbreviation FieldTypePassword :: string where "FieldTypePassword \<equiv> ''password''"
abbreviation FieldTypePhone :: string where "FieldTypePhone \<equiv> ''phone''"
abbreviation FieldTypeURL :: string where "FieldTypeURL \<equiv> ''url''"
abbreviation FieldTypeSlug :: string where "FieldTypeSlug \<equiv> ''slug''"
abbreviation FieldTypeEnum :: string where "FieldTypeEnum \<equiv> ''enum''"
abbreviation FieldTypeColor :: string where "FieldTypeColor \<equiv> ''color''"
abbreviation FieldTypeFile :: string where "FieldTypeFile \<equiv> ''file''"
abbreviation FieldTypeImage :: string where "FieldTypeImage \<equiv> ''image''"
abbreviation FieldTypeMarkdown :: string where "FieldTypeMarkdown \<equiv> ''markdown''"
abbreviation FieldTypeJSON :: string where "FieldTypeJSON \<equiv> ''json''"
abbreviation FieldTypeArray :: string where "FieldTypeArray \<equiv> ''array''"
abbreviation FieldTypeRelation :: string where "FieldTypeRelation \<equiv> ''relation''"
abbreviation FieldTypeCurrency :: string where "FieldTypeCurrency \<equiv> ''currency''"
abbreviation FieldTypeLocation :: string where "FieldTypeLocation \<equiv> ''location''"
abbreviation FieldTypeIP :: string where "FieldTypeIP \<equiv> ''ip''"
abbreviation FieldTypeUUID :: string where "FieldTypeUUID \<equiv> ''uuid''"
abbreviation FieldTypeDuration :: string where "FieldTypeDuration \<equiv> ''duration''"


record Field =
  Field_Name :: string
  Field_Type :: string
  Field_Primary :: bool
  Field_Required :: bool
  Field_Unique :: bool
  Field_Min :: "int option"
  Field_Max :: "int option"
  Field_Pattern :: string
  Field_Options :: "string list"
  Field_Default :: val
  Field_AutoNow :: bool
  Field_AutoNowAdd :: bool
  Field_Nullable :: bool
  Field_Index :: bool
  Field_RelatedTo :: string
  Field_OnDelete :: string
  Field_ArrayType :: string

record Permissions =
  Permissions_Create :: string
  Permissions_Read :: string
  Permissions_Update :: string
  Permissions_Delete :: string

record UIList =
  UIList_Columns :: "string list"
  UIList_Sortable :: "string list"
  UIList_Searchable :: "string list"

record UIForm =
  UIForm_Fields :: "string list"

record UIModel =
  UIModel_List :: UIList
  UIModel_Form :: UIForm

record Model =
  Model_Name :: string
  Model_Fields :: "Field list"
  Model_Permissions :: Permissions
  Model_UI :: UIModel

text \<open>\<open>Schema.Models\<close> is a Go map from model name to model.\<close>

record Schema =
  Schema_Models :: "string \<rightharpoonup> Model"

definition GetModel :: "Schema \<Rightarrow> string \<Rightarrow> Model option" where
  "GetModel s name = Schema_Models s name"

record SortField =
  SortField_Field :: string
  SortField_Desc :: bool

record Filter =
  Filter_Field :: string
  Filter_Operator :: string
  Filter_Value :: val

text \<open>\<open>Page\<close> and \<open>PageSize\<close> are Go \<open>int\<close>s (64 bits); the offset computed from them wraps.\<close>

record QueryParams =
  QueryParams_Page :: "64 word"
  QueryParams_PageSize :: "64 word"
  QueryParams_Sort :: "SortField list"
  QueryParams_Filters :: "Filter list"
  QueryParams_Search :: string

section \<open>Helpers of the Go standard library\<close>

text \<open>\<open>strings.Join\<close>.\<close>

fun Join :: "string list \<Rightarrow> string \<Rightarrow> string" where
  "Join [] sep = []"
| "Join [x] sep = x"
| "Join (x # y # ys) sep = x @ sep @ Join (y # ys) sep"

text \<open>The decimal digits of a natural number, and \<open>%d\<close> of an integer.\<close>

function showNat :: "nat \<Rightarrow> string" where
  "showNat n = (if n < 10 then [char_of (48 + n)] else showNat (n div 10) @ [char_of (48 + n mod 10)])"
  by pat_completeness auto
termination
  by (relation "measure (\<lambda>n. n)") auto

declare showNat.simps [simp del]

definition showInt :: "int \<Rightarrow> string" where
  "showInt i = (if i < 0 then CHR ''-'' # showNat (nat (- i)) else showNat (nat i))"

text \<open>
  \<open>strings.ToLower\<close> on the ASCII range: the bytes \<open>A\<close> to \<open>Z\<close> are mapped to \<open>a\<close> to \<open>z\<close>.
  Every other byte is kept (Go also lowers the upper-case letters beyond ASCII).
\<close>

definition lowerChar :: "char \<Rightarrow> char" where
  "lowerChar c = (if 65 \<le> (of_char c :: nat) \<and> (of_char c :: nat) \<le> 90
                  then char_of ((of_char c :: nat) + 32) else c)"

definition ToLower :: "string \<Rightarrow> string" where
  "ToLower s = map lowerChar s"

section \<open>The database handle (package database)\<close>

text \<open>
  \<open>Exec\<close> of the driver reports the last inserted id and the number of rows a statement
  affected.
\<close>

record ExecResult =
  ExecResult_LastInsertId :: int
  ExecResult_RowsAffected :: int

text \<open>
  The handle \<open>DB\<close> (and \<open>SQLiteDB\<close>, which embeds it): the dialect tag \<open>dbType\<close>, the schema
  pointer (\<open>None\<close> is nil), the state of the store behind the connection, and the statements
  handed to the connection so far, oldest first.
\<close>

record 's DB =
  DB_dbType :: string
  DB_schema :: "Schema option"
  DB_store :: 's
  DB_executed :: "string list"

abbreviation DatabaseSQLite :: string where "DatabaseSQLite \<equiv> ''sqlite''"

text \<open>\<open>DB.quote\<close>: the identifier between two double quotes for SQLite, unchanged otherwise.\<close>

definition quote :: "('s, 'x) DB_scheme \<Rightarrow> string \<Rightarrow> string" where
  "quote db name =
     (if DB_dbType db = DatabaseSQLite then [CHR 0x22] @ name @ [CHR 0x22] else name)"

text \<open>
  \<open>buildWhereClause\<close> (the same text in \<open>DB\<close> and in \<open>SQLiteDB\<close>). \<open>sprint\<close> is \<open>fmt.Sprint\<close>.
  The type assertion \<open>filter.Value.([]any)\<close> of the \<open>in\<close> branch panics on anything that is
  not a \<open>[]any\<close>.
\<close>

definition buildWhereClause ::
  "(val \<Rightarrow> string) \<Rightarrow> ('s, 'x) DB_scheme \<Rightarrow> Filter \<Rightarrow> error + (string \<times> val)" where
  "buildWhereClause sprint db flt =
     (let operator = (if Filter_Operator flt = '''' then ''='' else Filter_Operator flt)
      in if operator = ''like'' then
           Inr (quote db (Filter_Field flt) @ '' LIKE ?'',
                VStr (''%'' @ sprint (Filter_Value flt) @ ''%''))
         else if operator = ''in'' then
           (case Filter_Value flt of
              VList values \<Rightarrow>
                Inr (quote db (Filter_Field flt) @ '' IN (''
                       @ Join (replicate (length values) ''?'') '','' @ '')'',
                     VList values)
            | _ \<Rightarrow> Inl TypeAssertionPanic)
         else
           Inr (quote db (Filter_Field flt) @ '' '' @ operator @ '' ?'', Filter_Value flt))"

section \<open>The statement compiler (SQLiteDB)\<close>

text \<open>
  The loop of \<open>SQLiteDB.buildSelectQuery\<close> over \<open>params.Filters\<close>: each filter adds its clause
  to \<open>whereClauses\<close> and the one value \<open>buildWhereClause\<close> returned to \<open>args\<close>.
\<close>

fun buildSelectQuery_filters ::
  "(val \<Rightarrow> string) \<Rightarrow> ('s, 'x) DB_scheme \<Rightarrow> Filter list \<Rightarrow> string list \<Rightarrow> val list
     \<Rightarrow> error + (string list \<times> val list)" where
  "buildSelectQuery_filters sprint db [] whereClauses args = Inr (whereClauses, args)"
| "buildSelectQuery_filters sprint db (flt # rest) whereClauses args =
     (case buildWhereClause sprint db flt of
        Inl e \<Rightarrow> Inl e
      | Inr (clause, arg) \<Rightarrow>
          buildSelectQuery_filters sprint db rest (whereClauses @ [clause]) (args @ [arg]))"

text \<open>The search group: one \<open>LIKE\<close> clause and one bound pattern per searchable field.\<close>

definition buildSelectQuery_search ::
  "('s, 'x) DB_scheme \<Rightarrow> string \<Rightarrow> QueryParams \<Rightarrow> string list \<times> val list
     \<Rightarrow> string list \<times> val list" where
  "buildSelectQuery_search db model params st =
     (case st of (parts, args) \<Rightarrow>
        if QueryParams_Search params \<noteq> [] \<and> DB_schema db \<noteq> None then
          (case GetModel (the (DB_schema db)) model of
             None \<Rightarrow> (parts, args)
           | Some m \<Rightarrow>
               let searchable = UIList_Searchable (UIModel_List (Model_UI m)) in
               if length searchable > 0 then
                 let searchClauses = map (\<lambda>field. quote db field @ '' LIKE ?'') searchable;
                     args' = args @ map (\<lambda>field. VStr (''%'' @ QueryParams_Search params @ ''%''))
                                        searchable
                 in if length (QueryParams_Filters params) > 0
                    then (parts @ [''AND ('' @ Join searchClauses '' OR '' @ '')''], args')
                    else (parts @ [''WHERE '' @ Join searchClauses '' OR ''], args')
               else (parts, args))
        else (parts, args))"

definition buildSelectQuery_order ::
  "('s, 'x) DB_scheme \<Rightarrow> QueryParams \<Rightarrow> string list \<Rightarrow> string list" where
  "buildSelectQuery_order db params parts =
     (if length (QueryParams_Sort params) > 0 then
        parts @ [''ORDER BY '' @
          Join (map (\<lambda>sort. quote db (SortField_Field sort) @ '' ''
                         @ (if SortField_Desc sort then ''DESC'' else ''ASC''))
                    (QueryParams_Sort params)) '', '']
      else parts @ [''ORDER BY '' @ quote db ''id'' @ '' DESC''])"

definition buildSelectQuery_limit :: "QueryParams \<Rightarrow> string list \<Rightarrow> string list" where
  "buildSelectQuery_limit params parts =
     (if 0 < sint (QueryParams_PageSize params) then
        let limit = QueryParams_PageSize params;
            offset = (QueryParams_Page params - 1) * QueryParams_PageSize params
        in parts @ [''LIMIT '' @ showInt (sint limit) @ '' OFFSET '' @ showInt (sint offset)]
      else parts)"

text \<open>\<open>SQLiteDB.buildSelectQuery\<close>: the statement text and its bound arguments.\<close>

definition buildSelectQuery ::
  "(val \<Rightarrow> string) \<Rightarrow> ('s, 'x) DB_scheme \<Rightarrow> string \<Rightarrow> QueryParams
     \<Rightarrow> error + (string \<times> val list)" where
  "buildSelectQuery sprint db model params =
     (let parts = [''SELECT * FROM '' @ quote db model] in
      case (if length (QueryParams_Filters params) > 0 then
              (case buildSelectQuery_filters sprint db (QueryParams_Filters params) [] [] of
                 Inl e \<Rightarrow> Inl e
               | Inr (whereClauses, args) \<Rightarrow>
                   Inr (parts @ [''WHERE '' @ Join whereClauses '' AND ''], args))
            else Inr (parts, [])) of
        Inl e \<Rightarrow> Inl e
      | Inr st \<Rightarrow>
          (case buildSelectQuery_search db model params st of
             (parts', args') \<Rightarrow>
               Inr (Join (buildSelectQuery_limit params (buildSelectQuery_order db params parts'))
                      '' '',
                    args')))"

text \<open>
  The statement \<open>SQLiteDB.Count\<close> builds before it queries: its own copy of the filter loop,
  over the lower-cased model name.
\<close>

fun Count_filters ::
  "(val \<Rightarrow> string) \<Rightarrow> ('s, 'x) DB_scheme \<Rightarrow> Filter list \<Rightarrow> string list \<Rightarrow> val list
     \<Rightarrow> error + (string list \<times> val list)" where
  "Count_filters sprint db [] whereClauses args = Inr (whereClauses, args)"
| "Count_filters sprint db (flt # rest) whereClauses args =
     (case buildWhereClause sprint db flt of
        Inl e \<Rightarrow> Inl e
      | Inr (clause, arg) \<Rightarrow>
          Count_filters sprint db rest (whereClauses @ [clause]) (args @ [arg]))"

definition Count_query ::
  "(val \<Rightarrow> string) \<Rightarrow> ('s, 'x) DB_scheme \<Rightarrow> string \<Rightarrow> Filter list
     \<Rightarrow> error + (string \<times> val list)" where
  "Count_query sprint db model filters =
     (let tableName = ToLower model;
          parts = [''SELECT COUNT(*) FROM '' @ quote db tableName]
      in if length filters > 0 then
           (case Count_filters sprint db filters [] [] of
              Inl e \<Rightarrow> Inl e
            | Inr (whereClauses, args) \<Rightarrow>
                Inr (Join (parts @ [''WHERE '' @ Join whereClauses '' AND '']) '' '', args))
         else Inr (Join parts '' '', []))"

text \<open>
  \<open>DB.buildUpdateQuery\<close> and \<open>DB.buildDeleteQuery\<close>. The payload \<open>data\<close> is a Go map; it is
  given here as its entries in the order the \<open>range\<close> loop visits them.
\<close>

definition buildUpdateQuery ::
  "('s, 'x) DB_scheme \<Rightarrow> string \<Rightarrow> val \<Rightarrow> (string \<times> val) list \<Rightarrow> string \<times> val list" where
  "buildUpdateQuery db model id' data =
     (let setClauses = map (\<lambda>(col, v). quote db col @ '' = ?'') data;
          args = map snd data @ [id']
      in (''UPDATE '' @ quote db model @ '' SET '' @ Join setClauses '', '' @ '' WHERE id = ?'',
          args))"

definition buildDeleteQuery ::
  "('s, 'x) DB_scheme \<Rightarrow> string \<Rightarrow> val \<Rightarrow> string \<times> val list" where
  "buildDeleteQuery db model id' =
     (''DELETE FROM '' @ quote db model @ '' WHERE id = ?'', [id'])"

section \<open>Executing statements\<close>

text \<open>
  The connection of \<open>database/sql\<close> and the store behind it are outside the repository: they
  are a parameter. \<open>Driver_Exec\<close> is \<open>conn.Exec\<close>: from the state of the store, a statement and
  its arguments, an error or a result, and the next state. \<open>Driver_Query\<close> is \<open>conn.Query\<close>: an
  error or the rows that \<open>rows.Next\<close> will yield; a row is the list of its columns with their
  values, or the error that \<open>rows.Columns\<close> or \<open>rows.Scan\<close> reports for it.
\<close>

type_synonym Row = "error + (string \<times> val) list"

record 's Driver =
  Driver_Exec :: "'s \<Rightarrow> string \<Rightarrow> val list \<Rightarrow> (error + ExecResult) \<times> 's"
  Driver_Query :: "'s \<Rightarrow> string \<Rightarrow> val list \<Rightarrow> error + Row list"

definition conn_Exec ::
  "'s Driver \<Rightarrow> 's DB \<Rightarrow> string \<Rightarrow> val list \<Rightarrow> (error + ExecResult) \<times> 's DB" where
  "conn_Exec drv db query args =
     (case Driver_Exec drv (DB_store db) query args of
        (r, s') \<Rightarrow> (r, db\<lparr>DB_store := s', DB_executed := DB_executed db @ [query]\<rparr>))"

definition conn_Query ::
  "'s Driver \<Rightarrow> 's DB \<Rightarrow> string \<Rightarrow> val list \<Rightarrow> (error + Row list) \<times> 's DB" where
  "conn_Query drv db query args =
     (Driver_Query drv (DB_store db) query args,
      db\<lparr>DB_executed := DB_executed db @ [query]\<rparr>)"

text \<open>\<open>scanRow\<close>: the row as a map from column to value, byte sequences decoded as text.\<close>

definition scanRow :: "Row \<Rightarrow> error + (string \<rightharpoonup> val)" where
  "scanRow row =
     (case row of
        Inl e \<Rightarrow> Inl e
      | Inr columns \<Rightarrow>
          Inr (foldl (\<lambda>result (col, v).
                        case v of VBytes b \<Rightarrow> result(col \<mapsto> VStr b) | _ \<Rightarrow> result(col \<mapsto> v))
                     Map.empty columns))"

definition executeQueryRow ::
  "'s Driver \<Rightarrow> 's DB \<Rightarrow> string \<Rightarrow> val list \<Rightarrow> (error + (string \<rightharpoonup> val)) \<times> 's DB" where
  "executeQueryRow drv db query args =
     (case conn_Query drv db query args of
        (Inl err, db') \<Rightarrow> (Inl err, db')
      | (Inr [], db') \<Rightarrow> (Inl ErrNoRows, db')
      | (Inr (row # rest), db') \<Rightarrow> (scanRow row, db'))"

definition Get ::
  "'s Driver \<Rightarrow> 's DB \<Rightarrow> string \<Rightarrow> val \<Rightarrow> (error + (string \<rightharpoonup> val)) \<times> 's DB" where
  "Get drv db model id' =
     executeQueryRow drv db (''SELECT * FROM '' @ quote db model @ '' WHERE id = ?'') [id']"

text \<open>\<open>Update\<close> and \<open>Delete\<close> return the error of \<open>conn.Exec\<close>; its result is dropped.\<close>

definition Update ::
  "'s Driver \<Rightarrow> 's DB \<Rightarrow> string \<Rightarrow> val \<Rightarrow> (string \<times> val) list \<Rightarrow> error option \<times> 's DB" where
  "Update drv db model id' data =
     (case buildUpdateQuery db model id' data of
        (query, args) \<Rightarrow>
          (case conn_Exec drv db query args of
             (Inl err, db') \<Rightarrow> (Some err, db')
           | (Inr res, db') \<Rightarrow> (None, db')))"

definition Delete ::
  "'s Driver \<Rightarrow> 's DB \<Rightarrow> string \<Rightarrow> val \<Rightarrow> error option \<times> 's DB" where
  "Delete drv db model id' =
     (case buildDeleteQuery db model id' of
        (query, args) \<Rightarrow>
          (case conn_Exec drv db query args of
             (Inl err, db') \<Rightarrow> (Some err, db')
           | (Inr res, db') \<Rightarrow> (None, db')))"

section \<open>DDL synthesis\<close>

text \<open>\<open>escapeSQL\<close>: \<open>strings.ReplaceAll(s, "'", "''")\<close>.\<close>

definition escapeSQL :: "string \<Rightarrow> string" where
  "escapeSQL s = concat (map (\<lambda>c. if c = CHR 0x27 then [CHR 0x27, CHR 0x27] else [c]) s)"

definition formatDefaultValue :: "(val \<Rightarrow> string) \<Rightarrow> val \<Rightarrow> string \<Rightarrow> string" where
  "formatDefaultValue sprint v fieldType =
     (if v = VStr ''CURRENT_TIMESTAMP'' then ''CURRENT_TIMESTAMP''
      else case v of
             VStr s \<Rightarrow> [CHR 0x27] @ escapeSQL s @ [CHR 0x27]
           | VInt i \<Rightarrow> sprint v
           | VInt64 i \<Rightarrow> sprint v
           | VFloat x \<Rightarrow> sprint v
           | VBool b \<Rightarrow> (if b then ''1'' else ''0'')
           | _ \<Rightarrow> ''NULL'')"

definition getSQLiteType :: "Field \<Rightarrow> string" where
  "getSQLiteType field =
     (let t = Field_Type field in
      if t = FieldTypeID then ''INTEGER''
      else if t = FieldTypeNumber then ''INTEGER''
      else if t \<in> set [FieldTypeText, FieldTypeEmail, FieldTypePassword, FieldTypePhone,
                        FieldTypeURL, FieldTypeSlug, FieldTypeEnum, FieldTypeColor,
                        FieldTypeMarkdown, FieldTypeJSON, FieldTypeCurrency, FieldTypeIP,
                        FieldTypeUUID, FieldTypeDuration] then
        (case Field_Max field of
           Some m \<Rightarrow> if m < 255 then ''VARCHAR('' @ showInt m @ '')'' else ''TEXT''
         | None \<Rightarrow> ''TEXT'')
      else if t = FieldTypeBoolean then ''BOOLEAN''
      else if t \<in> set [FieldTypeDatetime, FieldTypeDate, FieldTypeTime] then ''DATETIME''
      else if t \<in> set [FieldTypeFile, FieldTypeImage] then ''TEXT''
      else if t = FieldTypeArray then ''TEXT''
      else if t = FieldTypeRelation then ''INTEGER''
      else if t = FieldTypeLocation then ''TEXT''
      else ''TEXT'')"

definition buildColumnDefinition ::
  "(val \<Rightarrow> string) \<Rightarrow> ('s, 'x) DB_scheme \<Rightarrow> Field \<Rightarrow> string" where
  "buildColumnDefinition sprint db field =
     (let parts = [quote db (Field_Name field), getSQLiteType field];
          parts = (if Field_Primary field then
                     (if Field_Type field = FieldTypeID
                      then parts @ [''PRIMARY KEY AUTOINCREMENT'']
                      else parts @ [''PRIMARY KEY''])
                   else parts);
          parts = (if Field_Required field \<and> \<not> Field_Primary field
                   then parts @ [''NOT NULL''] else parts);
          parts = (if Field_Unique field \<and> \<not> Field_Primary field
                   then parts @ [''UNIQUE''] else parts);
          parts = (if Field_Default field \<noteq> VNil
                   then parts @ [''DEFAULT '' @
                          formatDefaultValue sprint (Field_Default field) (Field_Type field)]
                   else parts)
      in Join parts '' '')"

text \<open>The loop of \<open>createTable\<close> over the fields: column definitions and foreign keys.\<close>

fun createTable_fields ::
  "(val \<Rightarrow> string) \<Rightarrow> ('s, 'x) DB_scheme \<Rightarrow> Field list \<Rightarrow> string list \<Rightarrow> string list
     \<Rightarrow> string list \<times> string list" where
  "createTable_fields sprint db [] columns constraints = (columns, constraints)"
| "createTable_fields sprint db (field # rest) columns constraints =
     (let columns' = columns @ [buildColumnDefinition sprint db field] in
      if Field_Type field = FieldTypeRelation \<and> Field_RelatedTo field \<noteq> [] then
        let constraint = ''FOREIGN KEY ('' @ quote db (Field_Name field) @ '') REFERENCES ''
                           @ quote db (Field_RelatedTo field) @ ''(id)'';
            constraint =
              (if Field_OnDelete field = ''cascade'' then constraint @ '' ON DELETE CASCADE''
               else if Field_OnDelete field = ''restrict'' then constraint @ '' ON DELETE RESTRICT''
               else if Field_OnDelete field = ''set_null'' then constraint @ '' ON DELETE SET NULL''
               else constraint)
        in createTable_fields sprint db rest columns' (constraints @ [constraint])
      else createTable_fields sprint db rest columns' constraints)"

definition createTable_query ::
  "(val \<Rightarrow> string) \<Rightarrow> ('s, 'x) DB_scheme \<Rightarrow> string \<Rightarrow> Model \<Rightarrow> string" where
  "createTable_query sprint db name model =
     (case createTable_fields sprint db (Model_Fields model) [] [] of
        (columns, constraints) \<Rightarrow>
          ''CREATE TABLE IF NOT EXISTS '' @ quote db name @ '' ('' @ [CHR 0x0A] @ ''  ''
            @ Join (columns @ constraints) ('','' @ [CHR 0x0A] @ ''  '') @ [CHR 0x0A] @ '')'')"

definition createTable ::
  "(val \<Rightarrow> string) \<Rightarrow> 's Driver \<Rightarrow> 's DB \<Rightarrow> string \<Rightarrow> Model \<Rightarrow> error option \<times> 's DB" where
  "createTable sprint drv db name model =
     (case conn_Exec drv db (createTable_query sprint db name model) [] of
        (Inl err, db') \<Rightarrow> (Some err, db')
      | (Inr res, db') \<Rightarrow> (None, db'))"

definition createIndexes_query :: "('s, 'x) DB_scheme \<Rightarrow> string \<Rightarrow> Field \<Rightarrow> string" where
  "createIndexes_query db modelName field =
     ''CREATE INDEX IF NOT EXISTS '' @ quote db (''idx_'' @ modelName @ ''_'' @ Field_Name field)
       @ '' ON '' @ quote db modelName @ '' ('' @ quote db (Field_Name field) @ '')''"

fun createIndexes_fields ::
  "'s Driver \<Rightarrow> 's DB \<Rightarrow> string \<Rightarrow> Field list \<Rightarrow> error option \<times> 's DB" where
  "createIndexes_fields drv db modelName [] = (None, db)"
| "createIndexes_fields drv db modelName (field # rest) =
     (if Field_Index field \<and> \<not> Field_Primary field \<and> \<not> Field_Unique field then
        (case conn_Exec drv db (createIndexes_query db modelName field) [] of
           (Inl err, db') \<Rightarrow> (Some err, db')
         | (Inr res, db') \<Rightarrow> createIndexes_fields drv db' modelName rest)
      else createIndexes_fields drv db modelName rest)"

definition createIndexes ::
  "'s Driver \<Rightarrow> 's DB \<Rightarrow> string \<Rightarrow> Model \<Rightarrow> error option \<times> 's DB" where
  "createIndexes drv db modelName model = createIndexes_fields drv db modelName (Model_Fields model)"

text \<open>
  \<open>CreateSchema\<close>: two \<open>range\<close> loops over \<open>schema.Models\<close>. A Go map is visited in an order
  the language leaves open, and not the same one in the two loops: \<open>tables\<close> and \<open>indexes\<close>
  are the entries of the map in the order the first and the second loop visit them.
\<close>

fun CreateSchema_tables ::
  "(val \<Rightarrow> string) \<Rightarrow> 's Driver \<Rightarrow> 's DB \<Rightarrow> (string \<times> Model) list \<Rightarrow> error option \<times> 's DB" where
  "CreateSchema_tables sprint drv db [] = (None, db)"
| "CreateSchema_tables sprint drv db ((modelName, model) # rest) =
     (case createTable sprint drv db modelName model of
        (Some err, db') \<Rightarrow> (Some (Wrap (''failed to create table '' @ modelName @ '': '') err), db')
      | (None, db') \<Rightarrow> CreateSchema_tables sprint drv db' rest)"

fun CreateSchema_indexes ::
  "'s Driver \<Rightarrow> 's DB \<Rightarrow> (string \<times> Model) list \<Rightarrow> error option \<times> 's DB" where
  "CreateSchema_indexes drv db [] = (None, db)"
| "CreateSchema_indexes drv db ((modelName, model) # rest) =
     (case createIndexes drv db modelName model of
        (Some err, db') \<Rightarrow>
          (Some (Wrap (''failed to create indexes for '' @ modelName @ '': '') err), db')
      | (None, db') \<Rightarrow> CreateSchema_indexes drv db' rest)"

definition CreateSchema ::
  "(val \<Rightarrow> string) \<Rightarrow> 's Driver \<Rightarrow> 's DB \<Rightarrow> Schema \<Rightarrow> (string \<times> Model) list
     \<Rightarrow> (string \<times> Model) list \<Rightarrow> error option \<times> 's DB" where
  "CreateSchema sprint drv db schema tables indexes =
     (case CreateSchema_tables sprint drv (db\<lparr>DB_schema := Some schema\<rparr>) tables of
        (Some err, db') \<Rightarrow> (Some err, db')
      | (None, db') \<Rightarrow> CreateSchema_indexes drv db' indexes)"

section \<open>The validation engine (package validation)\<close>

text \<open>
  \<open>regexp.MatchString\<close> is a parameter \<open>re\<close>: \<open>re pattern s\<close> is \<open>None\<close> when the pattern does not
  compile, and otherwise whether \<open>s\<close> matches. An error is \<open>Some\<close>, and \<open>None\<close> is the nil error.
\<close>

type_synonym regexp = "string \<Rightarrow> string \<Rightarrow> bool option"

definition validateText :: "regexp \<Rightarrow> Field \<Rightarrow> val \<Rightarrow> error option" where
  "validateText re field v =
     (case v of
        VStr str \<Rightarrow>
          if Field_Min field \<noteq> None \<and> int (length str) < the (Field_Min field) then
            Some (ValidationError (Field_Name field)
                    (''must be at least '' @ showInt (the (Field_Min field)) @ '' characters''))
          else if Field_Max field \<noteq> None \<and> int (length str) > the (Field_Max field) then
            Some (ValidationError (Field_Name field)
                    (''must be at most '' @ showInt (the (Field_Max field)) @ '' characters''))
          else if Field_Pattern field \<noteq> [] then
            (case re (Field_Pattern field) str of
               None \<Rightarrow> Some (ValidationError (Field_Name field) ''invalid pattern'')
             | Some matched \<Rightarrow>
                 if \<not> matched
                 then Some (ValidationError (Field_Name field) ''does not match required pattern'')
                 else None)
          else None
      | _ \<Rightarrow> Some (ValidationError (Field_Name field) ''must be a string''))"

definition validateNumber_bounds :: "Field \<Rightarrow> real \<Rightarrow> error option" where
  "validateNumber_bounds field num =
     (if Field_Min field \<noteq> None \<and> num < real_of_int (the (Field_Min field)) then
        Some (ValidationError (Field_Name field)
                (''must be at least '' @ showInt (the (Field_Min field))))
      else if Field_Max field \<noteq> None \<and> num > real_of_int (the (Field_Max field)) then
        Some (ValidationError (Field_Name field)
                (''must be at most '' @ showInt (the (Field_Max field))))
      else None)"

definition validateNumber :: "Field \<Rightarrow> val \<Rightarrow> error option" where
  "validateNumber field v =
     (case v of
        VFloat x \<Rightarrow> validateNumber_bounds field x
      | VInt i \<Rightarrow> validateNumber_bounds field (real_of_int i)
      | VInt64 i \<Rightarrow> validateNumber_bounds field (real_of_int i)
      | _ \<Rightarrow> Some (ValidationError (Field_Name field) ''must be a number''))"

definition validateBoolean :: "Field \<Rightarrow> val \<Rightarrow> error option" where
  "validateBoolean field v =
     (case v of
        VBool b \<Rightarrow> None
      | _ \<Rightarrow> Some (ValidationError (Field_Name field) ''must be a boolean''))"

definition emailRegex :: string where
  "emailRegex = ''^[a-zA-Z0-9._%+-]+@[a-zA-Z0-9.-]+'' @ [CHR 0x5C] @ ''.[a-zA-Z]{2,}$''"

definition validateEmail :: "regexp \<Rightarrow> Field \<Rightarrow> val \<Rightarrow> error option" where
  "validateEmail re field v =
     (case v of
        VStr str \<Rightarrow>
          if re emailRegex str = Some True then None
          else Some (ValidationError (Field_Name field) ''must be a valid email address'')
      | _ \<Rightarrow> Some (ValidationError (Field_Name field) ''must be a string''))"

definition urlRegex :: string where
  "urlRegex = ''^https?://[^'' @ [CHR 0x5C] @ ''s/$.?#].[^'' @ [CHR 0x5C] @ ''s]*$''"

definition validateURL :: "regexp \<Rightarrow> Field \<Rightarrow> val \<Rightarrow> error option" where
  "validateURL re field v =
     (case v of
        VStr str \<Rightarrow>
          if re urlRegex str = Some True then None
          else Some (ValidationError (Field_Name field) ''must be a valid URL'')
      | _ \<Rightarrow> Some (ValidationError (Field_Name field) ''must be a string''))"

definition validateEnum :: "Field \<Rightarrow> val \<Rightarrow> error option" where
  "validateEnum field v =
     (case v of
        VStr str \<Rightarrow>
          if str \<in> set (Field_Options field) then None
          else Some (ValidationError (Field_Name field)
                       (''must be one of: '' @ Join (Field_Options field) '', ''))
      | _ \<Rightarrow> Some (ValidationError (Field_Name field) ''must be a string''))"

definition validateDatetime :: "Field \<Rightarrow> val \<Rightarrow> error option" where
  "validateDatetime field v =
     (case v of
        VStr str \<Rightarrow> None
      | _ \<Rightarrow> Some (ValidationError (Field_Name field) ''must be a string''))"

text \<open>\<open>Validator.validateField\<close>: the nil case first, then the dispatch on the field type.\<close>

definition validateField :: "regexp \<Rightarrow> Field \<Rightarrow> val \<Rightarrow> error option" where
  "validateField re field v =
     (if v = VNil then
        (if Field_Nullable field then None
         else if Field_Required field
         then Some (ValidationError (Field_Name field) ''field is required'')
         else None)
      else let t = Field_Type field in
        if t = FieldTypeText \<or> t = FieldTypePassword then validateText re field v
        else if t = FieldTypeNumber then validateNumber field v
        else if t = FieldTypeBoolean then validateBoolean field v
        else if t = FieldTypeEmail then validateEmail re field v
        else if t = FieldTypeURL then validateURL re field v
        else if t = FieldTypeEnum then validateEnum field v
        else if t = FieldTypeDatetime \<or> t = FieldTypeDate \<or> t = FieldTypeTime
        then validateDatetime field v
        else None)"

text \<open>
  The loop of \<open>ValidateCreate\<close> over \<open>model.Fields\<close> (a slice, in its order). The payload is a
  Go map, only looked up here.
\<close>

fun ValidateCreate_fields :: "regexp \<Rightarrow> Field list \<Rightarrow> (string \<rightharpoonup> val) \<Rightarrow> error option" where
  "ValidateCreate_fields re [] data = None"
| "ValidateCreate_fields re (field # rest) data =
     (if Field_Primary field \<and> Field_Type field = FieldTypeID
      then ValidateCreate_fields re rest data
      else case data (Field_Name field) of
             None \<Rightarrow>
               if Field_Required field
               then Some (ValidationError (Field_Name field) ''field is required'')
               else ValidateCreate_fields re rest data
           | Some v \<Rightarrow>
               (case validateField re field v of
                  Some err \<Rightarrow> Some err
                | None \<Rightarrow> ValidateCreate_fields re rest data))"

definition ValidateCreate ::
  "regexp \<Rightarrow> Schema \<Rightarrow> string \<Rightarrow> (string \<rightharpoonup> val) \<Rightarrow> error option" where
  "ValidateCreate re schema modelName data =
     (case GetModel schema modelName of
        None \<Rightarrow> Some (Errorf (''model '' @ modelName @ '' not found''))
      | Some model \<Rightarrow> ValidateCreate_fields re (Model_Fields model) data)"

text \<open>\<open>Validator.getField\<close>: the first field of the model with that name.\<close>

definition getField :: "Model \<Rightarrow> string \<Rightarrow> Field option" where
  "getField model fieldName = find (\<lambda>field. Field_Name field = fieldName) (Model_Fields model)"

text \<open>
  The loop of \<open>ValidateUpdate\<close> ranges over the payload map itself: \<open>data\<close> is given as the
  entries of that map in the order the loop visits them, an order Go leaves open.
\<close>

fun ValidateUpdate_entries :: "regexp \<Rightarrow> Model \<Rightarrow> (string \<times> val) list \<Rightarrow> error option" where
  "ValidateUpdate_entries re model [] = None"
| "ValidateUpdate_entries re model ((fieldName, v) # rest) =
     (case getField model fieldName of
        None \<Rightarrow> Some (ValidationError fieldName ''field does not exist'')
      | Some field \<Rightarrow>
          if Field_Primary field
          then Some (ValidationError fieldName ''cannot update primary key'')
          else (case validateField re field v of
                  Some err \<Rightarrow> Some err
                | None \<Rightarrow> ValidateUpdate_entries re model rest))"

definition ValidateUpdate ::
  "regexp \<Rightarrow> Schema \<Rightarrow> string \<Rightarrow> (string \<times> val) list \<Rightarrow> error option" where
  "ValidateUpdate re schema modelName data =
     (case GetModel schema modelName of
        None \<Rightarrow> Some (Errorf (''model '' @ modelName @ '' not found''))
      | Some model \<Rightarrow> ValidateUpdate_entries re model data)"

section \<open>Checking a configuration (package parser)\<close>












section \<open>The laws as the specification words them\<close>

text \<open>
  The required-field law of the specification, in its words: \<open>validateCreate\<close> fails iff some
  required and not-primary field is absent from the payload, or some field present in the
  payload fails its check.
\<close>

definition spec_validateCreate_fails :: "regexp \<Rightarrow> Model \<Rightarrow> (string \<rightharpoonup> val) \<Rightarrow> bool" where
  "spec_validateCreate_fails re model data \<longleftrightarrow>
     (\<exists>field \<in> set (Model_Fields model).
        Field_Required field \<and> \<not> Field_Primary field \<and> data (Field_Name field) = None)
     \<or> (\<exists>field \<in> set (Model_Fields model).
          case data (Field_Name field) of
            None \<Rightarrow> False
          | Some v \<Rightarrow> validateField re field v \<noteq> None)"

section \<open>Example inputs\<close>

text \<open>A field with a name and a type, every other member at its zero value.\<close>

definition mkField :: "string \<Rightarrow> string \<Rightarrow> Field" where
  "mkField name t =
     \<lparr>Field_Name = name, Field_Type = t, Field_Primary = False, Field_Required = False,
      Field_Unique = False, Field_Min = None, Field_Max = None, Field_Pattern = [],
      Field_Options = [], Field_Default = VNil, Field_AutoNow = False,
      Field_AutoNowAdd = False, Field_Nullable = False, Field_Index = False,
      Field_RelatedTo = [], Field_OnDelete = [], Field_ArrayType = []\<rparr>"

definition mkModel :: "string \<Rightarrow> Field list \<Rightarrow> Model" where
  "mkModel name fs =
     \<lparr>Model_Name = name, Model_Fields = fs,
      Model_Permissions = \<lparr>Permissions_Create = [], Permissions_Read = [],
                            Permissions_Update = [], Permissions_Delete = []\<rparr>,
      Model_UI = \<lparr>UIModel_List = \<lparr>UIList_Columns = [], UIList_Sortable = [],
                                    UIList_Searchable = []\<rparr>,
                   UIModel_Form = \<lparr>UIForm_Fields = []\<rparr>\<rparr>\<rparr>"

text \<open>
  The model \<open>User\<close> of the specification's scenario, with an indexed e-mail address:
  \<open>id\<close> (identifier, primary), \<open>name\<close> (text, required, at most 50), \<open>age\<close> (number, at most
  120), \<open>email\<close> (email, indexed).
\<close>

definition userModel :: Model where
  "userModel = mkModel ''User''
     [(mkField ''id'' FieldTypeID)\<lparr>Field_Primary := True, Field_Required := True,
                                    Field_Unique := True\<rparr>,
      (mkField ''name'' FieldTypeText)\<lparr>Field_Required := True, Field_Max := Some 50\<rparr>,
      (mkField ''age'' FieldTypeNumber)\<lparr>Field_Max := Some 120\<rparr>,
      (mkField ''email'' FieldTypeEmail)\<lparr>Field_Index := True\<rparr>]"

text \<open>A model whose primary key is a text column, not an identifier.\<close>

definition productModel :: Model where
  "productModel = mkModel ''Product''
     [(mkField ''sku'' FieldTypeText)\<lparr>Field_Primary := True, Field_Required := True,
                                      Field_Unique := True\<rparr>,
      mkField ''title'' FieldTypeText]"

definition exampleSchema :: Schema where
  "exampleSchema = \<lparr>Schema_Models = [''User'' \<mapsto> userModel, ''Product'' \<mapsto> productModel]\<rparr>"

text \<open>An SQLite handle with nothing executed, over a store without state.\<close>

definition sqliteDB :: "unit DB" where
  "sqliteDB = \<lparr>DB_dbType = DatabaseSQLite, DB_schema = None, DB_store = (), DB_executed = []\<rparr>"

text \<open>A driver that accepts every statement, changes no row and finds no row.\<close>

definition idleDriver :: "unit Driver" where
  "idleDriver =
     \<lparr>Driver_Exec = (\<lambda>s query args.
                       (Inr \<lparr>ExecResult_LastInsertId = 0, ExecResult_RowsAffected = 0\<rparr>, s)),
      Driver_Query = (\<lambda>s query args. Inr [])\<rparr>"

text \<open>A regular-expression engine that is never reached by the examples.\<close>

definition anyRegexp :: regexp where
  "anyRegexp pattern s = Some True"





section \<open>Facts about the example inputs\<close>

lemma GetModel_User: "GetModel exampleSchema ''User'' = Some userModel"
  by (simp add: GetModel_def exampleSchema_def)

lemma GetModel_Product: "GetModel exampleSchema ''Product'' = Some productModel"
  by (simp add: GetModel_def exampleSchema_def)

lemma getField_user_id:
  "getField userModel ''id'' = Some ((mkField ''id'' FieldTypeID)\<lparr>Field_Primary := True,
      Field_Required := True, Field_Unique := True\<rparr>)"
  by (simp add: getField_def userModel_def mkModel_def mkField_def)



section \<open>Filter operators\<close>




section \<open>COUNT and SELECT\<close>

lemma Count_filters_eq:
  "Count_filters sprint db fs wc args = buildSelectQuery_filters sprint db fs wc args"
  by (induction fs arbitrary: wc args) (simp_all split: sum.splits)

text \<open>
  The two statements have the same WHERE text and the same bound arguments, and fail on
  the same filters; the table is the lower-cased model name in one and the model name in
  the other.
\<close>

lemma Count_query_and_select_share_where:
  "Count_query sprint db model filters =
     map_sum id (\<lambda>(whereClauses, args).
        (''SELECT COUNT(*) FROM '' @ quote db (ToLower model)
           @ (if filters = [] then [] else '' WHERE '' @ Join whereClauses '' AND ''), args))
       (buildSelectQuery_filters sprint db filters [] [])
   \<and> buildSelectQuery sprint db model
       \<lparr>QueryParams_Page = 0, QueryParams_PageSize = 0, QueryParams_Sort = [],
        QueryParams_Filters = filters, QueryParams_Search = []\<rparr> =
     map_sum id (\<lambda>(whereClauses, args).
        (''SELECT * FROM '' @ quote db model
           @ (if filters = [] then [] else '' WHERE '' @ Join whereClauses '' AND '')
           @ '' ORDER BY '' @ quote db ''id'' @ '' DESC'', args))
       (buildSelectQuery_filters sprint db filters [] [])"
proof (cases "filters = []")
  case True
  then show ?thesis
    by (simp add: Count_query_def buildSelectQuery_def buildSelectQuery_search_def
          buildSelectQuery_order_def buildSelectQuery_limit_def)
next
  case False
  then show ?thesis
    by (cases "buildSelectQuery_filters sprint db filters [] []")
       (auto simp: Count_query_def buildSelectQuery_def Count_filters_eq Let_def
          buildSelectQuery_search_def buildSelectQuery_order_def buildSelectQuery_limit_def)
qed


section \<open>Validation on create\<close>

lemma ValidateCreate_fields_fails_iff:
  "ValidateCreate_fields re fs data \<noteq> None \<longleftrightarrow>
     (\<exists>field \<in> set fs. \<not> (Field_Primary field \<and> Field_Type field = FieldTypeID) \<and>
        (case data (Field_Name field) of
           None \<Rightarrow> Field_Required field
         | Some v \<Rightarrow> validateField re field v \<noteq> None))"
  by (induction fs) (auto split: option.splits)

text \<open>
  C3 (as the code has it). For a model of the schema, \<open>ValidateCreate\<close> fails iff some
  field other than an auto-generated identifier (a field that is primary and of type
  \<open>id\<close>) is required and absent from the payload, or is present and fails
  \<open>validateField\<close>. So it accepts every payload whose fields, where present, pass their
  checks and whose required fields are present.
\<close>

theorem ValidateCreate_fails_iff:
  assumes "GetModel schema modelName = Some model"
  shows "ValidateCreate re schema modelName data \<noteq> None \<longleftrightarrow>
     (\<exists>field \<in> set (Model_Fields model).
        \<not> (Field_Primary field \<and> Field_Type field = FieldTypeID) \<and>
        (case data (Field_Name field) of
           None \<Rightarrow> Field_Required field
         | Some v \<Rightarrow> validateField re field v \<noteq> None))"
  using assms ValidateCreate_fields_fails_iff [of re "Model_Fields model" data]
  by (simp add: ValidateCreate_def)

text \<open>
  The scenario of the specification: a \<open>User\<close> without its required name is rejected, and
  a \<open>User\<close> with a name and an age is accepted without an \<open>id\<close>.
\<close>

theorem ValidateCreate_fails_iff_witness:
  "GetModel exampleSchema ''User'' = Some userModel
   \<and> ValidateCreate anyRegexp exampleSchema ''User'' [''age'' \<mapsto> VInt 200] \<noteq> None
   \<and> ValidateCreate anyRegexp exampleSchema ''User''
        [''name'' \<mapsto> VStr ''Ann'', ''age'' \<mapsto> VInt 30] = None"
proof -
  have m: "GetModel exampleSchema ''User'' = Some userModel" by (rule GetModel_User)
  have "ValidateCreate anyRegexp exampleSchema ''User'' [''age'' \<mapsto> VInt 200] \<noteq> None"
    unfolding ValidateCreate_fails_iff [OF m]
    by (simp add: userModel_def mkModel_def mkField_def)
  moreover have "\<not> ValidateCreate anyRegexp exampleSchema ''User''
        [''name'' \<mapsto> VStr ''Ann'', ''age'' \<mapsto> VInt 30] \<noteq> None"
    unfolding ValidateCreate_fails_iff [OF m]
    by (simp add: userModel_def mkModel_def mkField_def validateField_def validateText_def
          validateNumber_def validateNumber_bounds_def)
  ultimately show ?thesis using m by simp
qed

text \<open>
  Against C3 as it is worded: \<open>Product\<close> has a primary key \<open>sku\<close> of type text. The empty
  payload is rejected for \<open>sku\<close>, although no required field that is not primary is absent
  and no field is present.
\<close>

theorem ValidateCreate_primary_text_counterexample:
  "ValidateCreate anyRegexp exampleSchema ''Product'' Map.empty
     = Some (ValidationError ''sku'' ''field is required'')
   \<and> \<not> spec_validateCreate_fails anyRegexp productModel Map.empty"
  by (simp add: ValidateCreate_def GetModel_Product spec_validateCreate_fails_def
        productModel_def mkModel_def mkField_def)

section \<open>Validation on update\<close>

lemma ValidateUpdate_entries_append:
  "ValidateUpdate_entries re model (xs @ ys) =
     (case ValidateUpdate_entries re model xs of
        Some err \<Rightarrow> Some err
      | None \<Rightarrow> ValidateUpdate_entries re model ys)"
  by (induction xs) (auto split: option.splits)

text \<open>
  C4 (as the code has it). A payload with the key of a primary field is always rejected.
  The loop stops at the first entry that fails, in the order it visits the payload: the
  error is \<open>cannot update primary key\<close> when every entry visited before that key passes
  (so when the key is visited first, or is alone), and the error of the earlier entry
  otherwise.
\<close>

theorem ValidateUpdate_primary_key:
  assumes "GetModel schema modelName = Some model"
      and "getField model k = Some field"
      and "Field_Primary field"
  shows "ValidateUpdate re schema modelName (before @ (k, v) # rest) =
           (case ValidateUpdate_entries re model before of
              Some err \<Rightarrow> Some err
            | None \<Rightarrow> Some (ValidationError k ''cannot update primary key''))
         \<and> ValidateUpdate re schema modelName (before @ (k, v) # rest) \<noteq> None
         \<and> ValidateUpdate re schema modelName ((k, v) # rest)
             = Some (ValidationError k ''cannot update primary key'')"
  using assms
  by (simp add: ValidateUpdate_def ValidateUpdate_entries_append split: option.splits)

text \<open>An update of \<open>User\<close> that sets \<open>id\<close> after a valid name.\<close>

theorem ValidateUpdate_primary_key_witness:
  "GetModel exampleSchema ''User'' = Some userModel
   \<and> Field_Primary ((mkField ''id'' FieldTypeID)\<lparr>Field_Primary := True,
         Field_Required := True, Field_Unique := True\<rparr>)
   \<and> ValidateUpdate anyRegexp exampleSchema ''User''
        [(''name'', VStr ''Ann''), (''id'', VInt 99), (''age'', VInt 30)]
      = Some (ValidationError ''id'' ''cannot update primary key'')"
proof -
  have p: "Field_Primary ((mkField ''id'' FieldTypeID)\<lparr>Field_Primary := True,
         Field_Required := True, Field_Unique := True\<rparr>)"
    by simp
  have b: "ValidateUpdate_entries anyRegexp userModel [(''name'', VStr ''Ann'')] = None"
    by (simp add: getField_def userModel_def mkModel_def mkField_def validateField_def
          validateText_def)
  show ?thesis
    using ValidateUpdate_primary_key [OF GetModel_User getField_user_id p,
            of anyRegexp "[(''name'', VStr ''Ann'')]" "VInt 99" "[(''age'', VInt 30)]"]
          GetModel_User p b
    by simp
qed

text \<open>
  Against C4 as it is worded: the payload has the keys \<open>nickname\<close> and \<open>id\<close>; when the loop
  visits \<open>nickname\<close> first, the error is about the unknown field, not about the primary
  key.
\<close>

theorem ValidateUpdate_other_error_first_counterexample:
  "ValidateUpdate anyRegexp exampleSchema ''User''
     [(''nickname'', VStr ''Annie''), (''id'', VInt 99)]
   = Some (ValidationError ''nickname'' ''field does not exist'')"
  by (simp add: ValidateUpdate_def GetModel_User getField_def userModel_def mkModel_def
        mkField_def)

section \<open>The \<open>in\<close> operator\<close>

text \<open>
  C5, at a filter \<open>in\<close> over a list \<open>vs\<close>: the SELECT statement has one placeholder for each
  element of \<open>vs\<close>, and exactly one bound argument, the list itself.
\<close>

theorem in_filter_binds_one_argument:
  "buildSelectQuery sprint db model
     \<lparr>QueryParams_Page = 0, QueryParams_PageSize = 0, QueryParams_Sort = [],
      QueryParams_Filters =
        [\<lparr>Filter_Field = field, Filter_Operator = ''in'', Filter_Value = VList vs\<rparr>],
      QueryParams_Search = []\<rparr>
   = Inr (''SELECT * FROM '' @ quote db model @ '' WHERE '' @ quote db field @ '' IN (''
            @ Join (replicate (length vs) ''?'') '','' @ '') ORDER BY '' @ quote db ''id''
            @ '' DESC'',
          [VList vs])"
  by (simp add: buildSelectQuery_def buildWhereClause_def buildSelectQuery_search_def
        buildSelectQuery_order_def buildSelectQuery_limit_def)

text \<open>With the two values \<open>admin\<close> and \<open>user\<close>: two placeholders, one argument.\<close>

lemma in_filter_two_values:
  "buildSelectQuery (\<lambda>v. []) sqliteDB ''User''
     \<lparr>QueryParams_Page = 0, QueryParams_PageSize = 0, QueryParams_Sort = [],
      QueryParams_Filters =
        [\<lparr>Filter_Field = ''role'', Filter_Operator = ''in'',
          Filter_Value = VList [VStr ''admin'', VStr ''user'']\<rparr>],
      QueryParams_Search = []\<rparr>
   = Inr (''SELECT * FROM '' @ [CHR 0x22] @ ''User'' @ [CHR 0x22] @ '' WHERE '' @ [CHR 0x22]
            @ ''role'' @ [CHR 0x22] @ '' IN (?,?) ORDER BY '' @ [CHR 0x22] @ ''id'' @ [CHR 0x22]
            @ '' DESC'',
          [VList [VStr ''admin'', VStr ''user'']])"
  by (simp add: buildSelectQuery_def buildWhereClause_def buildSelectQuery_search_def
        buildSelectQuery_order_def buildSelectQuery_limit_def quote_def sqliteDB_def)

section \<open>Nil values\<close>


section \<open>Primary keys in a configuration\<close>











section \<open>Tables before indexes\<close>

lemma conn_Exec_effect:
  "conn_Exec drv db query args = (r, db') \<Longrightarrow>
     DB_executed db' = DB_executed db @ [query] \<and> DB_dbType db' = DB_dbType db"
  by (auto simp: conn_Exec_def split: prod.splits)

lemma buildColumnDefinition_dbType:
  "DB_dbType db' = DB_dbType db \<Longrightarrow>
     buildColumnDefinition sprint db' field = buildColumnDefinition sprint db field"
  by (simp add: buildColumnDefinition_def quote_def)

lemma createTable_fields_dbType:
  "DB_dbType db' = DB_dbType db \<Longrightarrow>
     createTable_fields sprint db' fs columns constraints
       = createTable_fields sprint db fs columns constraints"
  by (induction fs arbitrary: columns constraints)
     (simp_all add: buildColumnDefinition_def Let_def quote_def)

lemma createTable_query_dbType:
  "DB_dbType db' = DB_dbType db \<Longrightarrow>
     createTable_query sprint db' name model = createTable_query sprint db name model"
  using createTable_fields_dbType [of db' db sprint "Model_Fields model" "[]" "[]"]
  by (simp add: createTable_query_def quote_def)

lemma createTable_effect:
  "createTable sprint drv db name model = (r, db') \<Longrightarrow>
     DB_executed db' = DB_executed db @ [createTable_query sprint db name model]
     \<and> DB_dbType db' = DB_dbType db"
  by (auto simp: createTable_def split: prod.splits sum.splits dest: conn_Exec_effect)

lemma CreateSchema_tables_effect:
  "CreateSchema_tables sprint drv db tables = (r, db') \<Longrightarrow>
     \<exists>k \<le> length tables.
        DB_executed db' = DB_executed db
           @ map (\<lambda>(n, m). createTable_query sprint db n m) (take k tables)
        \<and> (r = None \<longrightarrow> k = length tables)
        \<and> DB_dbType db' = DB_dbType db"
proof (induction tables arbitrary: db)
  case Nil
  then show ?case by simp
next
  case (Cons p tables)
  obtain n m where p: "p = (n, m)" by (cases p)
  obtain r1 db1 where c: "createTable sprint drv db n m = (r1, db1)"
    by (cases "createTable sprint drv db n m")
  note e = createTable_effect [OF c]
  show ?case
  proof (cases r1)
    case (Some err)
    then have "db' = db1" and "r = Some (Wrap (''failed to create table '' @ n @ '': '') err)"
      using Cons.prems p c by auto
    then show ?thesis
      using e p by (intro exI [of _ 1]) simp
  next
    case None
    then have "CreateSchema_tables sprint drv db1 tables = (r, db')"
      using Cons.prems p c by simp
    from Cons.IH [OF this] obtain k where k: "k \<le> length tables"
      "DB_executed db' = DB_executed db1
           @ map (\<lambda>(n, m). createTable_query sprint db1 n m) (take k tables)"
      "r = None \<longrightarrow> k = length tables" "DB_dbType db' = DB_dbType db1"
      by blast
    have "\<And>n m. createTable_query sprint db1 n m = createTable_query sprint db n m"
      using e by (intro createTable_query_dbType) simp
    then have q: "(\<lambda>(n, m). createTable_query sprint db1 n m)
               = (\<lambda>(n, m). createTable_query sprint db n m)"
      by simp
    show ?thesis
      using k e p q by (intro exI [of _ "Suc k"]) simp
  qed
qed

lemma createIndexes_query_prefix: "prefix ''CREATE INDEX'' (createIndexes_query db modelName field)"
  by (simp add: createIndexes_query_def)

lemma createTable_query_prefix: "prefix ''CREATE TABLE'' (createTable_query sprint db name model)"
  by (simp add: createTable_query_def split: prod.splits)

lemma createIndexes_fields_effect:
  "createIndexes_fields drv db modelName fs = (r, db') \<Longrightarrow>
     \<exists>ixs. DB_executed db' = DB_executed db @ ixs
        \<and> (\<forall>q \<in> set ixs. prefix ''CREATE INDEX'' q)"
proof (induction fs arbitrary: db)
  case Nil
  then show ?case by simp
next
  case (Cons field fs)
  show ?case
  proof (cases "Field_Index field \<and> \<not> Field_Primary field \<and> \<not> Field_Unique field")
    case False
    then have "createIndexes_fields drv db modelName fs = (r, db')"
      using Cons.prems by auto
    from Cons.IH [OF this] show ?thesis .
  next
    case True
    obtain r1 db1 where c: "conn_Exec drv db (createIndexes_query db modelName field) [] = (r1, db1)"
      by (cases "conn_Exec drv db (createIndexes_query db modelName field) []")
    note e = conn_Exec_effect [OF c]
    show ?thesis
    proof (cases r1)
      case (Inl err)
      then have "db' = db1" using Cons.prems True c by simp
      then show ?thesis
        using e by (intro exI [of _ "[createIndexes_query db modelName field]"])
                   (simp add: createIndexes_query_prefix)
    next
      case (Inr res)
      then have "createIndexes_fields drv db1 modelName fs = (r, db')"
        using Cons.prems True c by simp
      from Cons.IH [OF this] obtain ixs where
        "DB_executed db' = DB_executed db1 @ ixs" "\<forall>q \<in> set ixs. prefix ''CREATE INDEX'' q"
        by blast
      then show ?thesis
        using e by (intro exI [of _ "createIndexes_query db modelName field # ixs"])
                   (simp add: createIndexes_query_prefix)
    qed
  qed
qed

lemma CreateSchema_indexes_effect:
  "CreateSchema_indexes drv db indexes = (r, db') \<Longrightarrow>
     \<exists>ixs. DB_executed db' = DB_executed db @ ixs
        \<and> (\<forall>q \<in> set ixs. prefix ''CREATE INDEX'' q)"
proof (induction indexes arbitrary: db)
  case Nil
  then show ?case by simp
next
  case (Cons p indexes)
  obtain n m where p: "p = (n, m)" by (cases p)
  obtain r1 db1 where c: "createIndexes drv db n m = (r1, db1)"
    by (cases "createIndexes drv db n m")
  from createIndexes_fields_effect [OF c [unfolded createIndexes_def]]
  obtain ixs1 where 1: "DB_executed db1 = DB_executed db @ ixs1"
    "\<forall>q \<in> set ixs1. prefix ''CREATE INDEX'' q" by blast
  show ?case
  proof (cases r1)
    case (Some err)
    then have "db' = db1" using Cons.prems p c by simp
    then show ?thesis using 1 by blast
  next
    case None
    then have "CreateSchema_indexes drv db1 indexes = (r, db')"
      using Cons.prems p c by simp
    from Cons.IH [OF this] obtain ixs where
      "DB_executed db' = DB_executed db1 @ ixs" "\<forall>q \<in> set ixs. prefix ''CREATE INDEX'' q"
      by blast
    then show ?thesis
      using 1 by (intro exI [of _ "ixs1 @ ixs"]) auto
  qed
qed

lemma example_CreateSchema_log:
  "map (take 12) (DB_executed (snd (CreateSchema (\<lambda>v. []) idleDriver sqliteDB exampleSchema
          [(''User'', userModel), (''Product'', productModel)]
          [(''Product'', productModel), (''User'', userModel)])))
   = [''CREATE TABLE'', ''CREATE TABLE'', ''CREATE INDEX'']"
  by (simp add: CreateSchema_def createTable_def conn_Exec_def idleDriver_def sqliteDB_def
        createIndexes_def userModel_def productModel_def mkModel_def mkField_def
        createTable_query_def createIndexes_query_def)

text \<open>
  C8. The statements \<open>CreateSchema\<close> hands to the connection are, in this order: the CREATE
  TABLE statements of the first \<open>k\<close> models of the first loop, then CREATE INDEX statements
  only. As soon as one CREATE INDEX statement is executed, and whenever \<open>CreateSchema\<close>
  succeeds, \<open>k\<close> is the number of models: every table has been created before. This holds
  for every driver and for every order in which the two loops visit the models.
\<close>

theorem CreateSchema_tables_before_indexes:
  "\<exists>k ixs. k \<le> length tables
     \<and> DB_executed (snd (CreateSchema sprint drv db schema tables indexes))
         = DB_executed db @ map (\<lambda>(n, m). createTable_query sprint db n m) (take k tables) @ ixs
     \<and> (\<forall>(n, m) \<in> set tables. prefix ''CREATE TABLE'' (createTable_query sprint db n m))
     \<and> (\<forall>q \<in> set ixs. prefix ''CREATE INDEX'' q)
     \<and> (ixs = [] \<or> k = length tables)
     \<and> (fst (CreateSchema sprint drv db schema tables indexes) = None \<longrightarrow> k = length tables)"
proof -
  let ?db0 = "db\<lparr>DB_schema := Some schema\<rparr>"
  obtain r1 db1 where t: "CreateSchema_tables sprint drv ?db0 tables = (r1, db1)"
    by (cases "CreateSchema_tables sprint drv ?db0 tables")
  have "\<And>n m. createTable_query sprint ?db0 n m = createTable_query sprint db n m"
    by (intro createTable_query_dbType) simp
  then have q: "(\<lambda>(n, m). createTable_query sprint ?db0 n m)
             = (\<lambda>(n, m). createTable_query sprint db n m)"
    by simp
  from CreateSchema_tables_effect [OF t] obtain k where k: "k \<le> length tables"
    "DB_executed db1 = DB_executed db
        @ map (\<lambda>(n, m). createTable_query sprint db n m) (take k tables)"
    "r1 = None \<longrightarrow> k = length tables"
    unfolding q by auto
  have p: "\<forall>(n, m) \<in> set tables. prefix ''CREATE TABLE'' (createTable_query sprint db n m)"
    by (auto simp: createTable_query_prefix)
  show ?thesis
  proof (cases r1)
    case (Some err)
    then have c: "CreateSchema sprint drv db schema tables indexes = (Some err, db1)"
      using t by (simp add: CreateSchema_def)
    show ?thesis
    proof (intro exI conjI)
      show "k \<le> length tables" by (rule k(1))
      show "DB_executed (snd (CreateSchema sprint drv db schema tables indexes))
              = DB_executed db
                  @ map (\<lambda>(n, m). createTable_query sprint db n m) (take k tables) @ []"
        using c k(2) by simp
      show "\<forall>(n, m) \<in> set tables. prefix ''CREATE TABLE'' (createTable_query sprint db n m)"
        by (rule p)
      show "\<forall>q \<in> set []. prefix ''CREATE INDEX'' q" by simp
      show "[] = [] \<or> k = length tables" by simp
      show "fst (CreateSchema sprint drv db schema tables indexes) = None
              \<longrightarrow> k = length tables"
        using c by simp
    qed
  next
    case None
    obtain r2 db2 where i: "CreateSchema_indexes drv db1 indexes = (r2, db2)"
      by (cases "CreateSchema_indexes drv db1 indexes")
    from CreateSchema_indexes_effect [OF i] obtain ixs where ixs:
      "DB_executed db2 = DB_executed db1 @ ixs" "\<forall>q \<in> set ixs. prefix ''CREATE INDEX'' q"
      by blast
    have c: "CreateSchema sprint drv db schema tables indexes = (r2, db2)"
      using t i None by (simp add: CreateSchema_def)
    have full: "k = length tables" using k(3) None by simp
    show ?thesis
    proof (intro exI conjI)
      show "k \<le> length tables" by (rule k(1))
      show "DB_executed (snd (CreateSchema sprint drv db schema tables indexes))
              = DB_executed db
                  @ map (\<lambda>(n, m). createTable_query sprint db n m) (take k tables) @ ixs"
        using c k(2) ixs(1) by simp
      show "\<forall>(n, m) \<in> set tables. prefix ''CREATE TABLE'' (createTable_query sprint db n m)"
        by (rule p)
      show "\<forall>q \<in> set ixs. prefix ''CREATE INDEX'' q" by (rule ixs(2))
      show "ixs = [] \<or> k = length tables" using full by simp
      show "fst (CreateSchema sprint drv db schema tables indexes) = None
              \<longrightarrow> k = length tables"
        using full by simp
    qed
  qed
qed

text \<open>
  A run over \<open>User\<close> and \<open>Product\<close>, the second loop in the other order: two CREATE TABLE
  statements, then the index on \<open>User.email\<close>.
\<close>

theorem CreateSchema_tables_before_indexes_witness:
  "map (take 12) (DB_executed (snd (CreateSchema (\<lambda>v. []) idleDriver sqliteDB exampleSchema
          [(''User'', userModel), (''Product'', productModel)]
          [(''Product'', productModel), (''User'', userModel)])))
     = [''CREATE TABLE'', ''CREATE TABLE'', ''CREATE INDEX'']
   \<and> (\<exists>k ixs. k \<le> length [(''User'', userModel), (''Product'', productModel)]
     \<and> DB_executed (snd (CreateSchema (\<lambda>v. []) idleDriver sqliteDB exampleSchema
          [(''User'', userModel), (''Product'', productModel)]
          [(''Product'', productModel), (''User'', userModel)]))
         = DB_executed sqliteDB
             @ map (\<lambda>(n, m). createTable_query (\<lambda>v. []) sqliteDB n m)
                 (take k [(''User'', userModel), (''Product'', productModel)]) @ ixs
     \<and> (\<forall>(n, m) \<in> set [(''User'', userModel), (''Product'', productModel)].
           prefix ''CREATE TABLE'' (createTable_query (\<lambda>v. []) sqliteDB n m))
     \<and> (\<forall>q \<in> set ixs. prefix ''CREATE INDEX'' q)
     \<and> (ixs = [] \<or> k = length [(''User'', userModel), (''Product'', productModel)])
     \<and> (fst (CreateSchema (\<lambda>v. []) idleDriver sqliteDB exampleSchema
          [(''User'', userModel), (''Product'', productModel)]
          [(''Product'', productModel), (''User'', userModel)]) = None
         \<longrightarrow> k = length [(''User'', userModel), (''Product'', productModel)]))"
  using example_CreateSchema_log
        CreateSchema_tables_before_indexes
          [of "[(''User'', userModel), (''Product'', productModel)]" "\<lambda>v. []" idleDriver
              sqliteDB exampleSchema "[(''Product'', productModel), (''User'', userModel)]"]
  by blast

section \<open>Rows affected\<close>

text \<open>
  C9. When the driver executes the UPDATE or the DELETE statement without error, \<open>Update\<close>
  and \<open>Delete\<close> return the nil error, whatever the result says about the rows affected;
  \<open>Get\<close> returns \<open>sql.ErrNoRows\<close> when its query yields no row.
\<close>

theorem Update_Delete_drop_result:
  "(Driver_Exec drv (DB_store db) (fst (buildUpdateQuery db model id' data))
        (snd (buildUpdateQuery db model id' data)) = (Inr res, s')
      \<longrightarrow> fst (Update drv db model id' data) = None)
   \<and> (Driver_Exec drv (DB_store db) (fst (buildDeleteQuery db model id'))
        (snd (buildDeleteQuery db model id')) = (Inr res, s')
      \<longrightarrow> fst (Delete drv db model id') = None)
   \<and> (Driver_Query drv (DB_store db) (''SELECT * FROM '' @ quote db model @ '' WHERE id = ?'')
        [id'] = Inr []
      \<longrightarrow> fst (Get drv db model id') = Inl ErrNoRows)"
  by (simp add: Update_def Delete_def Get_def executeQueryRow_def conn_Exec_def conn_Query_def
        split: prod.splits)

text \<open>A driver that affects no row and finds no row.\<close>

theorem Update_Delete_drop_result_witness:
  "ExecResult_RowsAffected
      (projr (fst (Driver_Exec idleDriver () ''UPDATE'' []))) = 0
   \<and> fst (Update idleDriver sqliteDB ''User'' (VInt 7) [(''name'', VStr ''Ann'')]) = None
   \<and> fst (Delete idleDriver sqliteDB ''User'' (VInt 7)) = None
   \<and> fst (Get idleDriver sqliteDB ''User'' (VInt 7)) = Inl ErrNoRows"
  using Update_Delete_drop_result [of idleDriver sqliteDB "''User''" "VInt 7"
          "[(''name'', VStr ''Ann'')]"
          "\<lparr>ExecResult_LastInsertId = 0, ExecResult_RowsAffected = 0\<rparr>" "()"]
  by (simp add: idleDriver_def)

section \<open>Identifier quoting\<close>

text \<open>
  C10. For every string \<open>s\<close>, the SQLite quoting function returns the double quote, \<open>s\<close>, and
  the double quote, and nothing else: a double quote inside \<open>s\<close> stays as it is (each
  character of \<open>s\<close> is found unchanged at its position, moved by one).
\<close>

theorem quote_sqlite_concat:
  "quote (db\<lparr>DB_dbType := DatabaseSQLite\<rparr>) s = [CHR 0x22] @ s @ [CHR 0x22]
   \<and> length (quote (db\<lparr>DB_dbType := DatabaseSQLite\<rparr>) s) = length s + 2
   \<and> quote (db\<lparr>DB_dbType := DatabaseSQLite\<rparr>) (a @ [CHR 0x22] @ b)
       = [CHR 0x22] @ a @ [CHR 0x22] @ b @ [CHR 0x22]"
  by (simp add: quote_def)

end
